theory Spec2Isabelle
  imports Complex_Main
begin

section \<open>A shallow embedding of the Go PID controller\<close>

text \<open>
  The repository is a single Go package \<^verbatim>\<open>pid\<close> with one struct, \<^verbatim>\<open>PID\<close>, and two
  methods, \<^verbatim>\<open>Update\<close> and \<^verbatim>\<open>Reset\<close>.  The file \<^verbatim>\<open>main.go\<close> holds two listings of the
  package: the primary one (its \<^verbatim>\<open>Update\<close> is at lines 35-89) and a variant (lines
  132-188) that computes the D and I terms only for nonzero gains.  Both are embedded
  below, the first as \<open>Update\<close>, the second as \<open>Update_variant\<close>.

  Modelling decisions.
  \<^item> In \<open>Update\<close>, \<open>Update_variant\<close> and \<open>Reset\<close>, \<^verbatim>\<open>float64\<close> is idealised as
    \<^typ>\<open>real\<close>: rounding, infinities and NaN are outside that model, which speaks about
    finite values and exact arithmetic.  It carries the claims about which fields a call
    reads and writes.
  \<^item> The bound on the returned value (C2) is not safe under that idealisation, because
    an overflow turns finite inputs into an infinity and then into NaN, which the clamp
    lets through.  It is settled on a second embedding of the primary listing,
    \<open>Update_f\<close>, over a type \<open>float64\<close> with infinities, NaN and the comparisons of
    IEEE 754, in which the four arithmetic operations are parameters: what is proved there
    holds whatever they compute.
  \<^item> A \<^verbatim>\<open>time.Time\<close> is the number of nanoseconds since Go's zero instant; the zero value
    of the type, which \<^verbatim>\<open>IsZero\<close> recognises, is \<open>0\<close>.  A \<^verbatim>\<open>time.Duration\<close> is a number of
    nanoseconds kept in the range of a 64-bit signed integer.
  \<^item> The wall clock is an input.  \<^verbatim>\<open>Update\<close> reads it twice: \<^verbatim>\<open>time.Now()\<close> at its first
    line gives \<open>now\<close>, and \<^verbatim>\<open>time.Since\<close> reads it again, giving \<open>clk\<close>.
  \<^item> A method with a pointer receiver that mutates the struct takes the struct and returns
    the updated one.
\<close>

subsection \<open>Time, as the standard library provides it\<close>

type_synonym Time = int
type_synonym Duration = int

definition IsZero :: "Time \<Rightarrow> bool" where
  "IsZero t \<longleftrightarrow> t = 0"

definition minDuration :: Duration where
  "minDuration = - (2 ^ 63)"

definition maxDuration :: Duration where
  "maxDuration = 2 ^ 63 - 1"

text \<open>\<^verbatim>\<open>t.Sub(u)\<close>: the difference, saturating at the ends of the range of a duration.\<close>

definition Sub :: "Time \<Rightarrow> Time \<Rightarrow> Duration" where
  "Sub t u = (let d = t - u in
     if d < minDuration then minDuration
     else if maxDuration < d then maxDuration
     else d)"

text \<open>\<^verbatim>\<open>time.Since(t)\<close> is \<^verbatim>\<open>time.Now().Sub(t)\<close>; the clock it reads is the argument \<open>clk\<close>.\<close>

definition Since :: "Time \<Rightarrow> Time \<Rightarrow> Duration" where
  "Since clk t = Sub clk t"

text \<open>\<^verbatim>\<open>d.Seconds()\<close>: a duration as a number of seconds.\<close>

definition Seconds :: "Duration \<Rightarrow> real" where
  "Seconds d = real_of_int d / 1000000000"

subsection \<open>The controller\<close>

record PID =
  Kp :: real
  Ki :: real
  Kd :: real
  MinOutput :: real
  MaxOutput :: real
  Deadband :: real
  Saturated :: bool
  AntiWindup :: bool
  prevError :: real
  integral :: real
  lastTime :: Time
  lastOutput :: real

text \<open>
  The package has no constructor: the tests build a controller with a composite literal
  \<^verbatim>\<open>PID{Kp: .., Ki: .., Kd: .., MinOutput: .., MaxOutput: .., Deadband: .., AntiWindup: ..}\<close>,
  and every field that is not named takes its zero value.
\<close>

definition PID_literal :: "real \<Rightarrow> real \<Rightarrow> real \<Rightarrow> real \<Rightarrow> real \<Rightarrow> real \<Rightarrow> bool \<Rightarrow> PID" where
  "PID_literal kp ki kd mn mx db aw =
     \<lparr>Kp = kp, Ki = ki, Kd = kd, MinOutput = mn, MaxOutput = mx, Deadband = db,
      Saturated = False, AntiWindup = aw,
      prevError = 0, integral = 0, lastTime = 0, lastOutput = 0\<rparr>"

text \<open>Lines 37-39: a controller whose timestamp is still the zero value is stamped.\<close>

definition stamp :: "Time \<Rightarrow> PID \<Rightarrow> PID" where
  "stamp now pid = (if IsZero (lastTime pid) then pid\<lparr>lastTime := now\<rparr> else pid)"

text \<open>Line 41: \<^verbatim>\<open>dt := time.Since(pid.lastTime).Seconds()\<close>.\<close>

definition elapsed :: "Time \<Rightarrow> PID \<Rightarrow> real" where
  "elapsed clk pid = Seconds (Since clk (lastTime pid))"

text \<open>The primary \<^verbatim>\<open>Update\<close> (lines 35-89): the returned output and the controller after it.\<close>

definition Update :: "Time \<Rightarrow> Time \<Rightarrow> real \<Rightarrow> real \<Rightarrow> PID \<Rightarrow> real \<times> PID" where
  "Update now clk setpoint measured pid0 =
    (let pid = stamp now pid0;
         dt = elapsed clk pid
     in if dt \<le> 0 then (lastOutput pid, pid)
        else
          let err = setpoint - measured
          in if \<bar>err\<bar> < Deadband pid then (lastOutput pid, pid)
             else
               let pTerm = Kp pid * err;
                   dTerm = Kd pid * (err - prevError pid) / dt;
                   integ = integral pid + (0.5 * dt * (err + prevError pid));
                   iTerm = Ki pid * integral pid;
                   output = pTerm + iTerm + dTerm;
                   (output, saturated) =
                     (if output > MaxOutput pid
                      then (MaxOutput pid, if err > 0 then True else False)
                      else if output < MinOutput pid
                      then (MinOutput pid, if err < 0 then True else False)
                      else (output, False));
                   pid = pid\<lparr>prevError := err, lastTime := now,
                              lastOutput := output, Saturated := saturated\<rparr>;
                   pid = (if AntiWindup pid \<and> \<not> Saturated pid
                          then pid\<lparr>integral := integ\<rparr> else pid)
               in (output, pid))"

text \<open>The variant \<^verbatim>\<open>Update\<close> (lines 132-188).\<close>

definition Update_variant :: "Time \<Rightarrow> Time \<Rightarrow> real \<Rightarrow> real \<Rightarrow> PID \<Rightarrow> real \<times> PID" where
  "Update_variant now clk setpoint measured pid0 =
    (let pid = stamp now pid0;
         dt = elapsed clk pid
     in if dt \<le> 0 then (lastOutput pid, pid)
        else
          let err = setpoint - measured
          in if \<bar>err\<bar> < Deadband pid then (lastOutput pid, pid)
             else
               let pTerm = Kp pid * err;
                   dTerm = (if Kd pid \<noteq> 0 then Kd pid * (err - prevError pid) / dt else 0);
                   integ = 0.5 * dt * (err + prevError pid);
                   iTerm = (if Ki pid \<noteq> 0 then Ki pid * integral pid else 0);
                   output = pTerm + iTerm + dTerm;
                   (output, saturated) =
                     (if output > MaxOutput pid then (MaxOutput pid, err > 0)
                      else if output < MinOutput pid then (MinOutput pid, err < 0)
                      else (output, False));
                   pid = pid\<lparr>prevError := err, lastTime := now,
                              lastOutput := output, Saturated := saturated\<rparr>;
                   pid = (if AntiWindup pid \<and> \<not> Saturated pid
                          then pid\<lparr>integral := integ\<rparr> else pid)
               in (output, pid))"

text \<open>\<^verbatim>\<open>Reset\<close> (lines 93-97); \<open>now\<close> is what \<^verbatim>\<open>time.Now()\<close> returns.\<close>

definition Reset :: "Time \<Rightarrow> PID \<Rightarrow> PID" where
  "Reset now pid = pid\<lparr>prevError := 0, integral := 0, lastTime := now\<rparr>"

subsection \<open>The controller over floating-point values\<close>

text \<open>
  A \<^verbatim>\<open>float64\<close> value: a finite number (every binary64 number is one of these reals),
  negative zero, the two infinities, or NaN.  \<open>Num 0\<close> is positive zero.
\<close>

datatype float64 = Num real | NegZero | PosInf | NegInf | NaN

fun f64_level :: "float64 \<Rightarrow> int" where
  "f64_level NegInf = -1"
| "f64_level PosInf = 1"
| "f64_level _ = 0"

fun f64_val :: "float64 \<Rightarrow> real" where
  "f64_val (Num r) = r"
| "f64_val _ = 0"

text \<open>
  Go's \<^verbatim>\<open><\<close>, \<^verbatim>\<open><=\<close> and \<^verbatim>\<open>>\<close> on \<^verbatim>\<open>float64\<close>: every comparison with NaN is false, the
  two zeros are equal, the infinities lie beyond every finite number.
\<close>

definition f64_lt :: "float64 \<Rightarrow> float64 \<Rightarrow> bool" where
  "f64_lt x y \<longleftrightarrow> x \<noteq> NaN \<and> y \<noteq> NaN \<and>
     (f64_level x < f64_level y \<or> (f64_level x = f64_level y \<and> f64_val x < f64_val y))"

definition f64_le :: "float64 \<Rightarrow> float64 \<Rightarrow> bool" where
  "f64_le x y \<longleftrightarrow> x \<noteq> NaN \<and> y \<noteq> NaN \<and>
     (f64_level x < f64_level y \<or> (f64_level x = f64_level y \<and> f64_val x \<le> f64_val y))"

definition f64_gt :: "float64 \<Rightarrow> float64 \<Rightarrow> bool" where
  "f64_gt x y \<longleftrightarrow> f64_lt y x"

text \<open>\<^verbatim>\<open>math.Abs\<close> clears the sign and rounds nothing.\<close>

fun f64_abs :: "float64 \<Rightarrow> float64" where
  "f64_abs (Num r) = Num \<bar>r\<bar>"
| "f64_abs NegZero = Num 0"
| "f64_abs PosInf = PosInf"
| "f64_abs NegInf = PosInf"
| "f64_abs NaN = NaN"

text \<open>
  The arithmetic that \<^verbatim>\<open>Update\<close> uses, as a parameter: the four operations on
  \<^verbatim>\<open>float64\<close> and the conversion \<^verbatim>\<open>Duration.Seconds\<close>.
\<close>

record arith =
  f_add :: "float64 \<Rightarrow> float64 \<Rightarrow> float64"
  f_sub :: "float64 \<Rightarrow> float64 \<Rightarrow> float64"
  f_mul :: "float64 \<Rightarrow> float64 \<Rightarrow> float64"
  f_div :: "float64 \<Rightarrow> float64 \<Rightarrow> float64"
  f_seconds :: "Duration \<Rightarrow> float64"

text \<open>
  One arithmetic to run the model with: the special values behave as IEEE 754 says, a
  finite result of magnitude \<open>2 ^ 1024\<close> or more overflows to an infinity, and any other
  finite result is kept exact (rounding and underflow are not modelled).
\<close>

definition f64_overflow :: "real \<Rightarrow> float64" where
  "f64_overflow r =
     (if 2 ^ 1024 \<le> r then PosInf else if r \<le> - (2 ^ 1024) then NegInf else Num r)"

fun f64_is_neg :: "float64 \<Rightarrow> bool" where
  "f64_is_neg (Num r) = (r < 0)"
| "f64_is_neg NegZero = True"
| "f64_is_neg NegInf = True"
| "f64_is_neg _ = False"

fun f64_is_zero :: "float64 \<Rightarrow> bool" where
  "f64_is_zero (Num r) = (r = 0)"
| "f64_is_zero NegZero = True"
| "f64_is_zero _ = False"

fun f64_is_inf :: "float64 \<Rightarrow> bool" where
  "f64_is_inf PosInf = True"
| "f64_is_inf NegInf = True"
| "f64_is_inf _ = False"

fun f64_neg :: "float64 \<Rightarrow> float64" where
  "f64_neg (Num r) = (if r = 0 then NegZero else Num (- r))"
| "f64_neg NegZero = Num 0"
| "f64_neg PosInf = NegInf"
| "f64_neg NegInf = PosInf"
| "f64_neg NaN = NaN"

definition f64_add :: "float64 \<Rightarrow> float64 \<Rightarrow> float64" where
  "f64_add x y =
    (if x = NaN \<or> y = NaN then NaN
     else if (x = PosInf \<and> y = NegInf) \<or> (x = NegInf \<and> y = PosInf) then NaN
     else if f64_is_inf x then x
     else if f64_is_inf y then y
     else if x = NegZero \<and> y = NegZero then NegZero
     else f64_overflow (f64_val x + f64_val y))"

definition f64_sub :: "float64 \<Rightarrow> float64 \<Rightarrow> float64" where
  "f64_sub x y = f64_add x (f64_neg y)"

definition f64_mul :: "float64 \<Rightarrow> float64 \<Rightarrow> float64" where
  "f64_mul x y =
    (if x = NaN \<or> y = NaN then NaN
     else if (f64_is_inf x \<and> f64_is_zero y) \<or> (f64_is_zero x \<and> f64_is_inf y) then NaN
     else if f64_is_inf x \<or> f64_is_inf y then (if f64_is_neg x \<noteq> f64_is_neg y then NegInf else PosInf)
     else if f64_is_zero x \<or> f64_is_zero y then (if f64_is_neg x \<noteq> f64_is_neg y then NegZero else Num 0)
     else f64_overflow (f64_val x * f64_val y))"

definition f64_div :: "float64 \<Rightarrow> float64 \<Rightarrow> float64" where
  "f64_div x y =
    (if x = NaN \<or> y = NaN then NaN
     else if (f64_is_inf x \<and> f64_is_inf y) \<or> (f64_is_zero x \<and> f64_is_zero y) then NaN
     else if f64_is_inf x \<or> f64_is_zero y then (if f64_is_neg x \<noteq> f64_is_neg y then NegInf else PosInf)
     else if f64_is_inf y \<or> f64_is_zero x then (if f64_is_neg x \<noteq> f64_is_neg y then NegZero else Num 0)
     else f64_overflow (f64_val x / f64_val y))"

definition f64_arith :: arith where
  "f64_arith = \<lparr>f_add = f64_add, f_sub = f64_sub, f_mul = f64_mul, f_div = f64_div,
                 f_seconds = (\<lambda>d. Num (Seconds d))\<rparr>"

text \<open>The struct again, its numeric fields now of type \<open>float64\<close>, and its literal.\<close>

record PID_f =
  Kp_f :: float64
  Ki_f :: float64
  Kd_f :: float64
  MinOutput_f :: float64
  MaxOutput_f :: float64
  Deadband_f :: float64
  Saturated_f :: bool
  AntiWindup_f :: bool
  prevError_f :: float64
  integral_f :: float64
  lastTime_f :: Time
  lastOutput_f :: float64

definition PID_f_literal ::
  "float64 \<Rightarrow> float64 \<Rightarrow> float64 \<Rightarrow> float64 \<Rightarrow> float64 \<Rightarrow> float64 \<Rightarrow> bool \<Rightarrow> PID_f" where
  "PID_f_literal kp ki kd mn mx db aw =
     \<lparr>Kp_f = kp, Ki_f = ki, Kd_f = kd, MinOutput_f = mn, MaxOutput_f = mx, Deadband_f = db,
      Saturated_f = False, AntiWindup_f = aw,
      prevError_f = Num 0, integral_f = Num 0, lastTime_f = 0, lastOutput_f = Num 0\<rparr>"

definition stamp_f :: "Time \<Rightarrow> PID_f \<Rightarrow> PID_f" where
  "stamp_f now pid = (if IsZero (lastTime_f pid) then pid\<lparr>lastTime_f := now\<rparr> else pid)"

definition elapsed_f :: "arith \<Rightarrow> Time \<Rightarrow> PID_f \<Rightarrow> float64" where
  "elapsed_f ar clk pid = f_seconds ar (Since clk (lastTime_f pid))"

text \<open>
  The primary \<^verbatim>\<open>Update\<close> (lines 35-89) once more, statement by statement, with every
  operator of the source replaced by the operation of the arithmetic \<open>ar\<close> or by the
  comparison on \<open>float64\<close>, and with Go's grouping: \<^verbatim>\<open>a * b / c\<close> is \<^verbatim>\<open>(a * b) / c\<close>
  and \<^verbatim>\<open>a + b + c\<close> is \<^verbatim>\<open>(a + b) + c\<close>.
\<close>

definition Update_f ::
  "arith \<Rightarrow> Time \<Rightarrow> Time \<Rightarrow> float64 \<Rightarrow> float64 \<Rightarrow> PID_f \<Rightarrow> float64 \<times> PID_f" where
  "Update_f ar now clk setpoint measured pid0 =
    (let pid = stamp_f now pid0;
         dt = elapsed_f ar clk pid
     in if f64_le dt (Num 0) then (lastOutput_f pid, pid)
        else
          let err = f_sub ar setpoint measured
          in if f64_lt (f64_abs err) (Deadband_f pid) then (lastOutput_f pid, pid)
             else
               let pTerm = f_mul ar (Kp_f pid) err;
                   dTerm = f_div ar (f_mul ar (Kd_f pid) (f_sub ar err (prevError_f pid))) dt;
                   integ = f_add ar (integral_f pid)
                             (f_mul ar (f_mul ar (Num 0.5) dt) (f_add ar err (prevError_f pid)));
                   iTerm = f_mul ar (Ki_f pid) (integral_f pid);
                   output = f_add ar (f_add ar pTerm iTerm) dTerm;
                   (output, saturated) =
                     (if f64_gt output (MaxOutput_f pid)
                      then (MaxOutput_f pid, if f64_gt err (Num 0) then True else False)
                      else if f64_lt output (MinOutput_f pid)
                      then (MinOutput_f pid, if f64_lt err (Num 0) then True else False)
                      else (output, False));
                   pid = pid\<lparr>prevError_f := err, lastTime_f := now,
                              lastOutput_f := output, Saturated_f := saturated\<rparr>;
                   pid = (if AntiWindup_f pid \<and> \<not> Saturated_f pid
                          then pid\<lparr>integral_f := integ\<rparr> else pid)
               in (output, pid))"

definition Reset_f :: "Time \<Rightarrow> PID_f \<Rightarrow> PID_f" where
  "Reset_f now pid = pid\<lparr>prevError_f := Num 0, integral_f := Num 0, lastTime_f := now\<rparr>"

text \<open>
  The states of a controller built by a literal, under the arithmetic \<open>ar\<close>: the literal,
  and whatever calls of \<open>Update_f\<close> and \<open>Reset_f\<close> make of it, at any clock readings and
  any inputs, finite or not.
\<close>

inductive reachable_f :: "arith \<Rightarrow> PID_f \<Rightarrow> PID_f \<Rightarrow> bool" for ar :: arith and p0 :: PID_f where
  reach_f_init: "reachable_f ar p0 p0"
| reach_f_Update:
    "reachable_f ar p0 p \<Longrightarrow> reachable_f ar p0 (snd (Update_f ar now clk setpoint measured p))"
| reach_f_Reset: "reachable_f ar p0 p \<Longrightarrow> reachable_f ar p0 (Reset_f now p)"

section \<open>Basic facts about one call\<close>

lemmas clock_defs = elapsed_def Seconds_def Since_def Sub_def minDuration_def maxDuration_def
  IsZero_def stamp_def

lemma stamp_fields [simp]:
  "Kp (stamp now p) = Kp p" "Ki (stamp now p) = Ki p" "Kd (stamp now p) = Kd p"
  "MinOutput (stamp now p) = MinOutput p" "MaxOutput (stamp now p) = MaxOutput p"
  "Deadband (stamp now p) = Deadband p" "Saturated (stamp now p) = Saturated p"
  "AntiWindup (stamp now p) = AntiWindup p" "prevError (stamp now p) = prevError p"
  "integral (stamp now p) = integral p" "lastOutput (stamp now p) = lastOutput p"
  "lastTime (stamp now p) = (if IsZero (lastTime p) then now else lastTime p)"
  by (simp_all add: stamp_def)

text \<open>The two early returns: only the stamping of an unset timestamp has happened.\<close>

lemma Update_no_time:
  "elapsed clk (stamp now p) \<le> 0 \<Longrightarrow> Update now clk sp m p = (lastOutput p, stamp now p)"
  by (simp add: Update_def)

lemma Update_in_deadband:
  "\<bar>sp - m\<bar> < Deadband p \<Longrightarrow> Update now clk sp m p = (lastOutput p, stamp now p)"
  by (simp add: Update_def Let_def)

lemma Update_variant_no_time:
  "elapsed clk (stamp now p) \<le> 0 \<Longrightarrow>
     Update_variant now clk sp m p = (lastOutput p, stamp now p)"
  by (simp add: Update_variant_def)

lemma Update_variant_in_deadband:
  "\<bar>sp - m\<bar> < Deadband p \<Longrightarrow> Update_variant now clk sp m p = (lastOutput p, stamp now p)"
  by (simp add: Update_variant_def Let_def)

text \<open>A call that passes both checks, in closed form over the state before the call.\<close>

lemma Update_full:
  assumes "0 < elapsed clk (stamp now p)" and "\<not> \<bar>sp - m\<bar> < Deadband p"
  shows "Update now clk sp m p =
    (let dt = elapsed clk (stamp now p);
         err = sp - m;
         raw = Kp p * err + Ki p * integral p + Kd p * (err - prevError p) / dt;
         out = (if raw > MaxOutput p then MaxOutput p
                else if raw < MinOutput p then MinOutput p else raw);
         sat = (if raw > MaxOutput p then err > 0
                else if raw < MinOutput p then err < 0 else False)
     in (out, p\<lparr>Saturated := sat, prevError := err,
                 integral := (if AntiWindup p \<and> \<not> sat
                              then integral p + 0.5 * dt * (err + prevError p)
                              else integral p),
                 lastTime := now, lastOutput := out\<rparr>))"
  using assms by (simp add: Update_def Let_def stamp_def)

lemma Update_variant_full:
  assumes "0 < elapsed clk (stamp now p)" and "\<not> \<bar>sp - m\<bar> < Deadband p"
  shows "Update_variant now clk sp m p =
    (let dt = elapsed clk (stamp now p);
         err = sp - m;
         raw = Kp p * err + Ki p * integral p + Kd p * (err - prevError p) / dt;
         out = (if raw > MaxOutput p then MaxOutput p
                else if raw < MinOutput p then MinOutput p else raw);
         sat = (if raw > MaxOutput p then err > 0
                else if raw < MinOutput p then err < 0 else False)
     in (out, p\<lparr>Saturated := sat, prevError := err,
                 integral := (if AntiWindup p \<and> \<not> sat
                              then 0.5 * dt * (err + prevError p)
                              else integral p),
                 lastTime := now, lastOutput := out\<rparr>))"
  using assms by (simp add: Update_variant_def Let_def stamp_def)

lemma Update_cases:
  obtains (short) "elapsed clk (stamp now p) \<le> 0 \<or> \<bar>sp - m\<bar> < Deadband p"
                  "Update now clk sp m p = (lastOutput p, stamp now p)"
        | (full) "0 < elapsed clk (stamp now p)" "\<not> \<bar>sp - m\<bar> < Deadband p"
  using Update_no_time [where now=now and clk=clk and sp=sp and m=m and p=p]
    Update_in_deadband [where now=now and clk=clk and sp=sp and m=m and p=p]
  by (cases "elapsed clk (stamp now p) \<le> 0"; cases "\<bar>sp - m\<bar> < Deadband p") auto

text \<open>What a call stores in the accumulator, for each of the two listings.\<close>

lemma Update_integral:
  assumes "0 < elapsed clk (stamp now p)" and "\<not> \<bar>sp - m\<bar> < Deadband p"
  shows "integral (snd (Update now clk sp m p)) =
    (if AntiWindup p \<and> \<not> Saturated (snd (Update now clk sp m p))
     then integral p + 0.5 * elapsed clk (stamp now p) * ((sp - m) + prevError p)
     else integral p)"
  using assms by (simp add: Update_full Let_def)

lemma Update_variant_integral:
  assumes "0 < elapsed clk (stamp now p)" and "\<not> \<bar>sp - m\<bar> < Deadband p"
  shows "integral (snd (Update_variant now clk sp m p)) =
    (if AntiWindup p \<and> \<not> Saturated (snd (Update_variant now clk sp m p))
     then 0.5 * elapsed clk (stamp now p) * ((sp - m) + prevError p)
     else integral p)"
  using assms by (simp add: Update_variant_full Let_def)

text \<open>The two listings return the same output and differ at most in the accumulator.\<close>

lemma Update_variant_agrees:
  "fst (Update_variant now clk sp m p) = fst (Update now clk sp m p)"
  "(snd (Update_variant now clk sp m p))\<lparr>integral := x\<rparr>
     = (snd (Update now clk sp m p))\<lparr>integral := x\<rparr>"
  by (cases "elapsed clk (stamp now p) \<le> 0"; cases "\<bar>sp - m\<bar> < Deadband p";
      simp add: Update_no_time Update_variant_no_time Update_in_deadband
        Update_variant_in_deadband Update_full Update_variant_full Let_def)+

text \<open>Every call returns what it leaves in \<open>lastOutput\<close>.\<close>

lemma Update_returns_lastOutput:
  "fst (Update now clk sp m p) = lastOutput (snd (Update now clk sp m p))"
  by (cases rule: Update_cases [where now=now and clk=clk and sp=sp and m=m and p=p];
      simp add: Update_full Let_def)

section \<open>The controller over floating-point values: one call and the reachable states\<close>

lemmas f64_defs = f64_arith_def f64_add_def f64_sub_def f64_mul_def f64_div_def f64_overflow_def
  f64_lt_def f64_le_def f64_gt_def elapsed_f_def stamp_f_def PID_f_literal_def
  Seconds_def Since_def Sub_def minDuration_def maxDuration_def IsZero_def

text \<open>The order on \<open>float64\<close> is total once NaN is set aside.\<close>

lemma f64_le_not_NaN: "f64_le x y \<Longrightarrow> x \<noteq> NaN \<and> y \<noteq> NaN"
  by (simp add: f64_le_def)

lemma f64_le_refl: "x \<noteq> NaN \<Longrightarrow> f64_le x x"
  by (simp add: f64_le_def)

lemma f64_not_lt_le: "x \<noteq> NaN \<Longrightarrow> y \<noteq> NaN \<Longrightarrow> \<not> f64_lt x y \<Longrightarrow> f64_le y x"
  by (auto simp add: f64_lt_def f64_le_def)

text \<open>The clamp of lines 66-77 on any raw value: within the bounds, or NaN.\<close>

lemma clamp_in_bounds:
  assumes "f64_le mn mx"
  shows "(let out = (if f64_gt raw mx then mx else if f64_lt raw mn then mn else raw)
          in (f64_le mn out \<and> f64_le out mx) \<or> out = NaN)"
  using assms f64_le_not_NaN [OF assms]
  by (auto simp add: Let_def f64_gt_def f64_le_refl f64_not_lt_le)

lemma stamp_f_fields [simp]:
  "MinOutput_f (stamp_f now p) = MinOutput_f p" "MaxOutput_f (stamp_f now p) = MaxOutput_f p"
  "Deadband_f (stamp_f now p) = Deadband_f p" "lastOutput_f (stamp_f now p) = lastOutput_f p"
  by (simp_all add: stamp_f_def)

lemma Update_f_short:
  assumes "f64_le (elapsed_f ar clk (stamp_f now p)) (Num 0)
         \<or> f64_lt (f64_abs (f_sub ar sp m)) (Deadband_f p)"
  shows "Update_f ar now clk sp m p = (lastOutput_f p, stamp_f now p)"
  using assms by (auto simp add: Update_f_def Let_def)

lemma Update_f_cases:
  obtains (short) "f64_le (elapsed_f ar clk (stamp_f now p)) (Num 0)
                   \<or> f64_lt (f64_abs (f_sub ar sp m)) (Deadband_f p)"
                  "Update_f ar now clk sp m p = (lastOutput_f p, stamp_f now p)"
        | (full) "\<not> f64_le (elapsed_f ar clk (stamp_f now p)) (Num 0)"
                 "\<not> f64_lt (f64_abs (f_sub ar sp m)) (Deadband_f p)"
  using Update_f_short [where ar=ar and now=now and clk=clk and sp=sp and m=m and p=p]
  by blast

lemma Update_f_output:
  assumes "\<not> f64_le (elapsed_f ar clk (stamp_f now p)) (Num 0)"
    and "\<not> f64_lt (f64_abs (f_sub ar sp m)) (Deadband_f p)"
  shows "fst (Update_f ar now clk sp m p) =
    (let err = f_sub ar sp m;
         raw = f_add ar (f_add ar (f_mul ar (Kp_f p) err) (f_mul ar (Ki_f p) (integral_f p)))
                 (f_div ar (f_mul ar (Kd_f p) (f_sub ar err (prevError_f p)))
                    (elapsed_f ar clk (stamp_f now p)))
     in if f64_gt raw (MaxOutput_f p) then MaxOutput_f p
        else if f64_lt raw (MinOutput_f p) then MinOutput_f p else raw)"
  using assms by (simp add: Update_f_def Let_def stamp_f_def)

lemma Update_f_bounds:
  "MinOutput_f (snd (Update_f ar now clk sp m p)) = MinOutput_f p"
  "MaxOutput_f (snd (Update_f ar now clk sp m p)) = MaxOutput_f p"
  by (simp_all add: Update_f_def Let_def split: prod.splits)

lemma Update_f_returns_lastOutput:
  "fst (Update_f ar now clk sp m p) = lastOutput_f (snd (Update_f ar now clk sp m p))"
  by (simp add: Update_f_def Let_def split: prod.splits)

lemma Update_f_full_in_bounds:
  assumes "\<not> f64_le (elapsed_f ar clk (stamp_f now p)) (Num 0)"
    and "\<not> f64_lt (f64_abs (f_sub ar sp m)) (Deadband_f p)"
    and "f64_le (MinOutput_f p) (MaxOutput_f p)"
  shows "(f64_le (MinOutput_f p) (fst (Update_f ar now clk sp m p))
          \<and> f64_le (fst (Update_f ar now clk sp m p)) (MaxOutput_f p))
       \<or> fst (Update_f ar now clk sp m p) = NaN"
  unfolding Update_f_output [OF assms(1,2)]
  using clamp_in_bounds [OF assms(3)] by (simp add: Let_def)

lemma reachable_f_bounds:
  assumes "reachable_f ar p0 p"
  shows "MinOutput_f p = MinOutput_f p0 \<and> MaxOutput_f p = MaxOutput_f p0"
  using assms by (induction rule: reachable_f.induct) (simp_all add: Update_f_bounds Reset_f_def)

lemma reachable_f_lastOutput:
  assumes "reachable_f ar p0 p" and "f64_le (MinOutput_f p0) (MaxOutput_f p0)"
  shows "lastOutput_f p = lastOutput_f p0 \<or> lastOutput_f p = NaN
       \<or> (f64_le (MinOutput_f p0) (lastOutput_f p) \<and> f64_le (lastOutput_f p) (MaxOutput_f p0))"
  using assms
proof (induction rule: reachable_f.induct)
  case reach_f_init
  then show ?case by simp
next
  case (reach_f_Update p now clk setpoint measured)
  have b: "MinOutput_f p = MinOutput_f p0" "MaxOutput_f p = MaxOutput_f p0"
    using reachable_f_bounds [OF reach_f_Update.hyps] by simp_all
  show ?case
  proof (cases rule: Update_f_cases [where ar=ar and now=now and clk=clk
        and sp=setpoint and m=measured and p=p])
    case short
    with reach_f_Update.IH reach_f_Update.prems show ?thesis by simp
  next
    case full
    from Update_f_full_in_bounds [OF full] reach_f_Update.prems b
    show ?thesis by (auto simp add: Update_f_returns_lastOutput [symmetric])
  qed
next
  case (reach_f_Reset p now)
  then show ?case by (simp add: Reset_f_def)
qed

text \<open>
  Finite inputs can make a call return NaN.  A fresh controller with proportional gain 1
  and bounds -100 and 100 is given \<^verbatim>\<open>Update(2^1023, -2^1023)\<close>: the error overflows to an
  infinity, the derivative term is \<open>0 * infinity\<close>, which is NaN, and both comparisons of
  the clamp are false on NaN, so NaN is returned and stored as the last output.
\<close>

lemma Update_f_overflow_gives_NaN:
  "Update_f f64_arith 1000000000 2000000000 (Num (2 ^ 1023)) (Num (- (2 ^ 1023)))
      (PID_f_literal (Num 1) (Num 0) (Num 0) (Num (-100)) (Num 100) (Num 0) False)
   = (NaN, \<lparr>Kp_f = Num 1, Ki_f = Num 0, Kd_f = Num 0, MinOutput_f = Num (-100),
        MaxOutput_f = Num 100, Deadband_f = Num 0, Saturated_f = False, AntiWindup_f = False,
        prevError_f = PosInf, integral_f = Num 0, lastTime_f = 1000000000,
        lastOutput_f = NaN\<rparr>)"
  by (simp add: Update_f_def Let_def f64_defs)

section \<open>The claims\<close>

subsection \<open>C1: when the accumulator advances\<close>

text \<open>
  C1 says that a call reaching the state update advances the integral accumulator to the
  candidate value exactly when anti-windup is disabled, or it is enabled and the new
  saturated flag is false.  The guard in both listings is
  \<^verbatim>\<open>pid.AntiWindup && !pid.Saturated\<close> (lemmas \<open>Update_integral\<close> and
  \<open>Update_variant_integral\<close>), so with anti-windup disabled the accumulator never moves.
  Here a controller built as \<^verbatim>\<open>PID{Kp: 1, Ki: 0.1, MinOutput: -100, MaxOutput: 100}\<close>
  is updated with setpoint 10 and measured value 5, one second after it was stamped: the
  call passes both checks, anti-windup is off, the output 5 is not saturated, the
  candidate is 5/2, and the accumulator stays 0 in both listings.
\<close>

theorem C1_integral_frozen_when_antiwindup_disabled:
  "0 < elapsed 2000000000 (stamp 1000000000 (PID_literal 1 (1/10) 0 (-100) 100 0 False))
   \<and> \<not> \<bar>10 - 5\<bar> < Deadband (PID_literal 1 (1/10) 0 (-100) 100 0 False)
   \<and> \<not> AntiWindup (PID_literal 1 (1/10) 0 (-100) 100 0 False)
   \<and> integral (PID_literal 1 (1/10) 0 (-100) 100 0 False)
        + 0.5 * elapsed 2000000000 (stamp 1000000000 (PID_literal 1 (1/10) 0 (-100) 100 0 False))
              * ((10 - 5) + prevError (PID_literal 1 (1/10) 0 (-100) 100 0 False)) = 5 / 2
   \<and> Update 1000000000 2000000000 10 5 (PID_literal 1 (1/10) 0 (-100) 100 0 False)
       = (5, \<lparr>Kp = 1, Ki = 1/10, Kd = 0, MinOutput = -100, MaxOutput = 100, Deadband = 0,
              Saturated = False, AntiWindup = False,
              prevError = 5, integral = 0, lastTime = 1000000000, lastOutput = 5\<rparr>)
   \<and> Update_variant 1000000000 2000000000 10 5 (PID_literal 1 (1/10) 0 (-100) 100 0 False)
       = (5, \<lparr>Kp = 1, Ki = 1/10, Kd = 0, MinOutput = -100, MaxOutput = 100, Deadband = 0,
              Saturated = False, AntiWindup = False,
              prevError = 5, integral = 0, lastTime = 1000000000, lastOutput = 5\<rparr>)"
  by (simp add: Update_def Update_variant_def Let_def clock_defs PID_literal_def)

subsection \<open>C2: the returned value and the output bounds\<close>

text \<open>
  C2 says that, for a configuration with minimum at most maximum and for all finite
  inputs, every value \<open>Update\<close> returns lies between the two bounds, the early returns
  included.  It fails for a fresh controller whose bounds do not bracket zero: with bounds
  5 and 10 and a deadband of 2, the first call, with setpoint 10 and measured value 9,
  returns the initial last output 0.
\<close>

theorem C2_initial_output_outside_bounds:
  "f64_le (MinOutput_f (PID_f_literal (Num 1) (Num 0) (Num 0) (Num 5) (Num 10) (Num 2) False))
          (MaxOutput_f (PID_f_literal (Num 1) (Num 0) (Num 0) (Num 5) (Num 10) (Num 2) False))
   \<and> reachable_f f64_arith
        (PID_f_literal (Num 1) (Num 0) (Num 0) (Num 5) (Num 10) (Num 2) False)
        (PID_f_literal (Num 1) (Num 0) (Num 0) (Num 5) (Num 10) (Num 2) False)
   \<and> fst (Update_f f64_arith 1000000000 2000000000 (Num 10) (Num 9)
        (PID_f_literal (Num 1) (Num 0) (Num 0) (Num 5) (Num 10) (Num 2) False)) = Num 0
   \<and> f64_lt (fst (Update_f f64_arith 1000000000 2000000000 (Num 10) (Num 9)
        (PID_f_literal (Num 1) (Num 0) (Num 0) (Num 5) (Num 10) (Num 2) False)))
        (MinOutput_f (PID_f_literal (Num 1) (Num 0) (Num 0) (Num 5) (Num 10) (Num 2) False))"
  by (simp add: reach_f_init Update_f_def Let_def f64_defs)

text \<open>
  C2 as amended.  Take any arithmetic, a literal whose minimum is at most its maximum, and
  any state reachable from it.  Whatever the inputs, the value \<open>Update\<close> returns lies
  between the bounds, or is NaN, or the call returns early while the last output is still
  its initial 0, and then it returns 0.  The NaN case cannot be left out: finite inputs
  reach it by overflow (lemma \<open>Update_f_overflow_gives_NaN\<close>).
\<close>

theorem C2_output_in_bounds_or_NaN_or_initial:
  assumes "reachable_f ar (PID_f_literal kp ki kd mn mx db aw) p" and "f64_le mn mx"
  shows "(f64_le (MinOutput_f p) (fst (Update_f ar now clk sp m p))
          \<and> f64_le (fst (Update_f ar now clk sp m p)) (MaxOutput_f p))
       \<or> fst (Update_f ar now clk sp m p) = NaN
       \<or> ((f64_le (elapsed_f ar clk (stamp_f now p)) (Num 0)
             \<or> f64_lt (f64_abs (f_sub ar sp m)) (Deadband_f p))
           \<and> lastOutput_f p = Num 0 \<and> fst (Update_f ar now clk sp m p) = Num 0)"
proof -
  have b: "MinOutput_f p = mn" "MaxOutput_f p = mx"
    using reachable_f_bounds [OF assms(1)] by (simp_all add: PID_f_literal_def)
  have l: "lastOutput_f p = Num 0 \<or> lastOutput_f p = NaN
         \<or> (f64_le mn (lastOutput_f p) \<and> f64_le (lastOutput_f p) mx)"
    using reachable_f_lastOutput [OF assms(1)] assms(2) by (simp add: PID_f_literal_def)
  show ?thesis
  proof (cases rule: Update_f_cases [where ar=ar and now=now and clk=clk
        and sp=sp and m=m and p=p])
    case short
    with l b show ?thesis by auto
  next
    case full
    from Update_f_full_in_bounds [OF full] assms(2) b show ?thesis by auto
  qed
qed

text \<open>
  The amended C2 at work, under the arithmetic \<open>f64_arith\<close>: the controller with bounds 5
  and 10 after one full update (which returns 5), then a call inside the deadband, which
  returns that 5 again.
\<close>

theorem C2_output_in_bounds_or_NaN_or_initial_witness:
  "reachable_f f64_arith (PID_f_literal (Num 1) (Num 0) (Num 0) (Num 5) (Num 10) (Num 2) False)
      (snd (Update_f f64_arith 1000000000 2000000000 (Num 10) (Num 5)
         (PID_f_literal (Num 1) (Num 0) (Num 0) (Num 5) (Num 10) (Num 2) False)))
   \<and> f64_le (Num 5) (Num 10)
   \<and> fst (Update_f f64_arith 4000000000 4000000000 (Num 10) (Num 9)
        (snd (Update_f f64_arith 1000000000 2000000000 (Num 10) (Num 5)
           (PID_f_literal (Num 1) (Num 0) (Num 0) (Num 5) (Num 10) (Num 2) False)))) = Num 5
   \<and> f64_le (Num 5) (Num 5)"
proof -
  have r: "reachable_f f64_arith
      (PID_f_literal (Num 1) (Num 0) (Num 0) (Num 5) (Num 10) (Num 2) False)
      (snd (Update_f f64_arith 1000000000 2000000000 (Num 10) (Num 5)
         (PID_f_literal (Num 1) (Num 0) (Num 0) (Num 5) (Num 10) (Num 2) False)))"
    by (rule reach_f_Update [OF reach_f_init])
  have h: "f64_le (Num 5) (Num 10)" by (simp add: f64_le_def)
  from C2_output_in_bounds_or_NaN_or_initial [OF r h, where now = 4000000000
      and clk = 4000000000 and sp = "Num 10" and m = "Num 9"] r h
  show ?thesis
    by (simp add: Update_f_def Let_def f64_defs)
qed

subsection \<open>C3: the candidate accumulation\<close>

text \<open>
  C3 says that on every call reaching the term computation the candidate accumulation is
  the previous accumulator plus the trapezoidal increment \<open>0.5 * dt * (error + previous
  error)\<close>.  The primary listing does that (lemma \<open>Update_integral\<close>); the variant's line
  161 leaves the previous accumulator out (lemma \<open>Update_variant_integral\<close>).  Here the
  controller \<^verbatim>\<open>PID{Kp: 1, Ki: 0.1, MinOutput: -100, MaxOutput: 100, AntiWindup: true}\<close>
  is updated twice with setpoint 10 and measured value 5.  After the first call the
  accumulator is 5/2; the second call comes two seconds later with previous error 5, so
  the claim's candidate is 5/2 + 10 = 25/2: the primary listing stores 25/2, the variant
  stores 10.
\<close>

theorem C3_variant_drops_previous_integral:
  "integral (snd (Update_variant 1000000000 2000000000 10 5
       (PID_literal 1 (1/10) 0 (-100) 100 0 True))) = 5 / 2
   \<and> prevError (snd (Update_variant 1000000000 2000000000 10 5
       (PID_literal 1 (1/10) 0 (-100) 100 0 True))) = 5
   \<and> elapsed 3000000000 (stamp 3000000000 (snd (Update_variant 1000000000 2000000000 10 5
       (PID_literal 1 (1/10) 0 (-100) 100 0 True)))) = 2
   \<and> AntiWindup (snd (Update_variant 1000000000 2000000000 10 5
       (PID_literal 1 (1/10) 0 (-100) 100 0 True)))
   \<and> \<not> Saturated (snd (Update_variant 3000000000 3000000000 10 5
       (snd (Update_variant 1000000000 2000000000 10 5
         (PID_literal 1 (1/10) 0 (-100) 100 0 True)))))
   \<and> integral (snd (Update_variant 3000000000 3000000000 10 5
       (snd (Update_variant 1000000000 2000000000 10 5
         (PID_literal 1 (1/10) 0 (-100) 100 0 True))))) = 10
   \<and> integral (snd (Update 3000000000 3000000000 10 5
       (snd (Update 1000000000 2000000000 10 5
         (PID_literal 1 (1/10) 0 (-100) 100 0 True))))) = 25 / 2"
  by (simp add: Update_def Update_variant_def Let_def clock_defs PID_literal_def)

subsection \<open>C4: the integral term lags by one call\<close>

text \<open>
  C4: on every call that reaches the term computation, the integral term in the returned
  output is the integral gain times the accumulator as it was before the call; the
  candidate computed during the call is not part of this call's output.  In both listings
  the output is the clamped sum of \<open>Kp * error\<close>, \<open>Ki * integral\<close> and
  \<open>Kd * (error - previous error) / dt\<close>, all read from the state before the call.
\<close>

theorem C4_integral_term_uses_previous_integral:
  assumes "0 < elapsed clk (stamp now p)" and "\<not> \<bar>sp - m\<bar> < Deadband p"
  shows "(let raw = Kp p * (sp - m) + Ki p * integral p
                    + Kd p * ((sp - m) - prevError p) / elapsed clk (stamp now p)
          in fst (Update now clk sp m p) =
               (if raw > MaxOutput p then MaxOutput p
                else if raw < MinOutput p then MinOutput p else raw)
           \<and> fst (Update_variant now clk sp m p) =
               (if raw > MaxOutput p then MaxOutput p
                else if raw < MinOutput p then MinOutput p else raw))"
  using assms by (simp add: Update_full Update_variant_full Let_def)

text \<open>
  C4 on a controller with accumulator 5/2 and previous error 5, two seconds after its last
  update: the output is \<open>1 * 5 + 0.1 * 5/2\<close>, although the call moves the accumulator on.
\<close>

theorem C4_integral_term_uses_previous_integral_witness:
  "0 < elapsed 3000000000 (stamp 3000000000
         ((PID_literal 1 (1/10) 0 (-100) 100 0 True)\<lparr>prevError := 5, integral := 5/2,
             lastTime := 1000000000, lastOutput := 5\<rparr>))
   \<and> \<not> \<bar>10 - 5\<bar> < Deadband ((PID_literal 1 (1/10) 0 (-100) 100 0 True)\<lparr>prevError := 5,
             integral := 5/2, lastTime := 1000000000, lastOutput := 5\<rparr>)
   \<and> fst (Update 3000000000 3000000000 10 5
         ((PID_literal 1 (1/10) 0 (-100) 100 0 True)\<lparr>prevError := 5, integral := 5/2,
             lastTime := 1000000000, lastOutput := 5\<rparr>)) = 1 * 5 + (1/10) * (5/2)
   \<and> fst (Update_variant 3000000000 3000000000 10 5
         ((PID_literal 1 (1/10) 0 (-100) 100 0 True)\<lparr>prevError := 5, integral := 5/2,
             lastTime := 1000000000, lastOutput := 5\<rparr>)) = 1 * 5 + (1/10) * (5/2)"
  using C4_integral_term_uses_previous_integral [where now = 3000000000 and clk = 3000000000
      and sp = 10 and m = 5
      and p = "(PID_literal 1 (1/10) 0 (-100) 100 0 True)\<lparr>prevError := 5, integral := 5/2,
             lastTime := 1000000000, lastOutput := 5\<rparr>"]
  by (simp add: clock_defs PID_literal_def Let_def)

subsection \<open>C5: no elapsed time\<close>

text \<open>
  C5 says that a call computing an elapsed time of zero or less returns the last output
  and changes no field, the timestamp included.  On a fresh controller the timestamp is
  the zero value, and lines 37-39 stamp it before the elapsed time is computed: when the
  clock has not moved between the two readings of the first call, that call returns early
  and the timestamp has changed.
\<close>

theorem C5_first_call_stamps_timestamp:
  "elapsed 1000000000 (stamp 1000000000 (PID_literal 1 0 0 (-100) 100 0 False)) \<le> 0
   \<and> lastTime (snd (Update 1000000000 1000000000 10 5 (PID_literal 1 0 0 (-100) 100 0 False)))
       \<noteq> lastTime (PID_literal 1 0 0 (-100) 100 0 False)"
  by (simp add: Update_def Let_def clock_defs PID_literal_def)

text \<open>
  C5 as amended.  A call computing an elapsed time of zero or less returns the last output
  and changes no field, except that a timestamp still unset is set to the current time;
  both listings agree on it.  And after any call made at a clock reading that is not the
  zero instant, a second call computing an elapsed time of zero or less returns the same
  output as the first and leaves the state as the first left it.
\<close>

theorem C5_no_elapsed_time:
  "(elapsed clk (stamp now p) \<le> 0 \<longrightarrow>
      Update now clk sp m p
        = (lastOutput p, if IsZero (lastTime p) then p\<lparr>lastTime := now\<rparr> else p)
      \<and> Update_variant now clk sp m p = Update now clk sp m p)
   \<and> (\<not> IsZero now \<and> elapsed clk' (stamp now' (snd (Update now clk sp m p))) \<le> 0 \<longrightarrow>
      Update now' clk' sp' m' (snd (Update now clk sp m p)) = Update now clk sp m p)"
proof (intro conjI impI)
  assume "elapsed clk (stamp now p) \<le> 0"
  then show "Update now clk sp m p
        = (lastOutput p, if IsZero (lastTime p) then p\<lparr>lastTime := now\<rparr> else p)"
    and "Update_variant now clk sp m p = Update now clk sp m p"
    by (simp_all add: Update_no_time Update_variant_no_time stamp_def)
next
  let ?p1 = "snd (Update now clk sp m p)"
  assume a: "\<not> IsZero now \<and> elapsed clk' (stamp now' ?p1) \<le> 0"
  have "\<not> IsZero (lastTime ?p1)"
    using a by (cases rule: Update_cases [where now=now and clk=clk and sp=sp and m=m and p=p];
      simp add: Update_full Let_def)
  then have "stamp now' ?p1 = ?p1" by (simp add: stamp_def)
  with a have "Update now' clk' sp' m' ?p1 = (lastOutput ?p1, ?p1)"
    by (simp add: Update_no_time)
  then show "Update now' clk' sp' m' ?p1 = Update now clk sp m p"
    by (simp add: Update_returns_lastOutput [symmetric])
qed

text \<open>
  The amended C5 on a fresh controller and a clock that stands still at one second: the
  first call returns 0 and stamps the controller, the second returns 0 and changes nothing.
\<close>

theorem C5_no_elapsed_time_witness:
  "elapsed 1000000000 (stamp 1000000000 (PID_literal 1 0 0 (-100) 100 0 False)) \<le> 0
   \<and> Update 1000000000 1000000000 10 5 (PID_literal 1 0 0 (-100) 100 0 False)
       = (0, (PID_literal 1 0 0 (-100) 100 0 False)\<lparr>lastTime := 1000000000\<rparr>)
   \<and> \<not> IsZero 1000000000
   \<and> elapsed 1000000000 (stamp 1000000000
        (snd (Update 1000000000 1000000000 10 5 (PID_literal 1 0 0 (-100) 100 0 False)))) \<le> 0
   \<and> Update 1000000000 1000000000 20 5
        (snd (Update 1000000000 1000000000 10 5 (PID_literal 1 0 0 (-100) 100 0 False)))
       = (0, (PID_literal 1 0 0 (-100) 100 0 False)\<lparr>lastTime := 1000000000\<rparr>)"
  using C5_no_elapsed_time [where now = 1000000000 and clk = 1000000000 and sp = 10 and m = 5
      and p = "PID_literal 1 0 0 (-100) 100 0 False"
      and now' = 1000000000 and clk' = 1000000000 and sp' = 20 and m' = 5]
  by (simp add: Update_def Update_variant_def Let_def clock_defs PID_literal_def)

subsection \<open>C6: the deadband\<close>

text \<open>
  C6 says that, when time has elapsed and the absolute error is strictly below the
  deadband, \<open>Update\<close> returns what the preceding call returned (0 when there was none)
  and leaves the previous error, the accumulator and the timestamp unchanged.  The
  timestamp part fails on the first call of a fresh controller: with a deadband of 2,
  setpoint 10 and measured value 9, the call returns early, but lines 37-39 have already
  replaced the unset timestamp by the current time.
\<close>

theorem C6_first_call_stamps_timestamp:
  "0 < elapsed 2000000000 (stamp 1000000000 (PID_literal 1 0 0 (-100) 100 2 False))
   \<and> \<bar>10 - 9\<bar> < Deadband (PID_literal 1 0 0 (-100) 100 2 False)
   \<and> lastTime (snd (Update 1000000000 2000000000 10 9 (PID_literal 1 0 0 (-100) 100 2 False)))
       \<noteq> lastTime (PID_literal 1 0 0 (-100) 100 2 False)"
  by (simp add: Update_def Let_def clock_defs PID_literal_def)

text \<open>
  C6 as amended.  When time has elapsed and the absolute error is strictly below the
  deadband, \<open>Update\<close> returns the last output and changes no field, except that a
  timestamp still unset is set to the current time; both listings agree on it.  The last
  output is what the preceding call of \<open>Update\<close> returned, and it is 0 for a controller
  just built.
\<close>

theorem C6_deadband_returns_last_output:
  assumes "0 < elapsed clk (stamp now p)" and "\<bar>sp - m\<bar> < Deadband p"
  shows "Update now clk sp m p
           = (lastOutput p, if IsZero (lastTime p) then p\<lparr>lastTime := now\<rparr> else p)
    \<and> Update_variant now clk sp m p = Update now clk sp m p
    \<and> (p = snd (Update now0 clk0 sp0 m0 p0) \<longrightarrow>
          fst (Update now clk sp m p) = fst (Update now0 clk0 sp0 m0 p0))
    \<and> (p = PID_literal kp ki kd mn mx db aw \<longrightarrow> fst (Update now clk sp m p) = 0)"
proof -
  have u: "Update now clk sp m p = (lastOutput p, stamp now p)"
    using assms(2) by (rule Update_in_deadband)
  have v: "Update_variant now clk sp m p = (lastOutput p, stamp now p)"
    using assms(2) by (rule Update_variant_in_deadband)
  have f: "fst (Update now clk sp m p) = lastOutput p"
    by (simp add: u)
  show ?thesis
  proof (intro conjI impI)
    show "Update now clk sp m p
           = (lastOutput p, if IsZero (lastTime p) then p\<lparr>lastTime := now\<rparr> else p)"
      by (simp add: u stamp_def)
    show "Update_variant now clk sp m p = Update now clk sp m p"
      by (simp add: u v)
  next
    assume e: "p = snd (Update now0 clk0 sp0 m0 p0)"
    show "fst (Update now clk sp m p) = fst (Update now0 clk0 sp0 m0 p0)"
      unfolding f unfolding e by (rule Update_returns_lastOutput [symmetric])
  next
    assume e: "p = PID_literal kp ki kd mn mx db aw"
    show "fst (Update now clk sp m p) = 0"
      unfolding f unfolding e by (simp add: PID_literal_def)
  qed
qed

text \<open>
  The amended C6 twice: on the state a full update (returning 5) has left, three seconds
  later, a call inside the deadband returns 5 and changes nothing; and on the controller
  just built, the spec's scenario (deadband 2, setpoint 10, measured value 9) returns 0.
\<close>

theorem C6_deadband_returns_last_output_witness:
  "0 < elapsed 4000000000 (stamp 4000000000
         (snd (Update 1000000000 2000000000 10 5 (PID_literal 1 0 0 (-100) 100 2 False))))
   \<and> \<bar>10 - 9\<bar> < Deadband
         (snd (Update 1000000000 2000000000 10 5 (PID_literal 1 0 0 (-100) 100 2 False)))
   \<and> Update 4000000000 4000000000 10 9
         (snd (Update 1000000000 2000000000 10 5 (PID_literal 1 0 0 (-100) 100 2 False)))
       = (5, (PID_literal 1 0 0 (-100) 100 2 False)\<lparr>prevError := 5, lastTime := 1000000000,
                lastOutput := 5\<rparr>)
   \<and> fst (Update 1000000000 2000000000 10 5 (PID_literal 1 0 0 (-100) 100 2 False)) = 5
   \<and> 0 < elapsed 2000000000 (stamp 1000000000 (PID_literal 1 0 0 (-100) 100 2 False))
   \<and> \<bar>10 - 9\<bar> < Deadband (PID_literal 1 0 0 (-100) 100 2 False)
   \<and> fst (Update 1000000000 2000000000 10 9 (PID_literal 1 0 0 (-100) 100 2 False)) = 0"
  using C6_deadband_returns_last_output [where now = 4000000000 and clk = 4000000000
      and sp = 10 and m = 9
      and p = "snd (Update 1000000000 2000000000 10 5 (PID_literal 1 0 0 (-100) 100 2 False))"
      and ?now0.0 = 1000000000 and ?clk0.0 = 2000000000 and ?sp0.0 = 10 and ?m0.0 = 5
      and ?p0.0 = "PID_literal 1 0 0 (-100) 100 2 False"]
    C6_deadband_returns_last_output [where now = 1000000000 and clk = 2000000000
      and sp = 10 and m = 9 and p = "PID_literal 1 0 0 (-100) 100 2 False"
      and kp = 1 and ki = 0 and kd = 0 and mn = "-100" and mx = 100 and db = 2 and aw = False]
  by (simp add: Update_def Update_variant_def Let_def clock_defs PID_literal_def)

subsection \<open>C7: clamping and the saturation flag\<close>

text \<open>
  C7: on every call that reaches the clamping step, a raw output above the maximum gives
  the maximum and the flag \<open>error > 0\<close>; otherwise a raw output below the minimum gives
  the minimum and the flag \<open>error < 0\<close>; otherwise the raw output is returned and the
  flag is false.  The sign of the error, not of the output, decides the flag.  Both
  listings do so.
\<close>

theorem C7_clamp_and_saturation_flag:
  assumes "0 < elapsed clk (stamp now p)" and "\<not> \<bar>sp - m\<bar> < Deadband p"
  shows "(let raw = Kp p * (sp - m) + Ki p * integral p
                    + Kd p * ((sp - m) - prevError p) / elapsed clk (stamp now p);
              out = (if raw > MaxOutput p then MaxOutput p
                     else if raw < MinOutput p then MinOutput p else raw);
              flag = (if raw > MaxOutput p then sp - m > 0
                      else if raw < MinOutput p then sp - m < 0 else False)
          in fst (Update now clk sp m p) = out
           \<and> Saturated (snd (Update now clk sp m p)) = flag
           \<and> fst (Update_variant now clk sp m p) = out
           \<and> Saturated (snd (Update_variant now clk sp m p)) = flag)"
  using assms by (simp add: Update_full Update_variant_full Let_def)

text \<open>
  C7 on the spec's scenario: gains 10, 0, 0, bounds -20 and 20, setpoint 10, measured
  value 5.  The raw output is 50, the call returns 20 and sets the flag.
\<close>

theorem C7_clamp_and_saturation_flag_witness:
  "0 < elapsed 2000000000 (stamp 1000000000 (PID_literal 10 0 0 (-20) 20 0 False))
   \<and> \<not> \<bar>10 - 5\<bar> < Deadband (PID_literal 10 0 0 (-20) 20 0 False)
   \<and> fst (Update 1000000000 2000000000 10 5 (PID_literal 10 0 0 (-20) 20 0 False)) = 20
   \<and> Saturated (snd (Update 1000000000 2000000000 10 5 (PID_literal 10 0 0 (-20) 20 0 False)))
   \<and> fst (Update_variant 1000000000 2000000000 10 5 (PID_literal 10 0 0 (-20) 20 0 False)) = 20
   \<and> Saturated (snd (Update_variant 1000000000 2000000000 10 5
         (PID_literal 10 0 0 (-20) 20 0 False)))"
  using C7_clamp_and_saturation_flag [where now = 1000000000 and clk = 2000000000
      and sp = 10 and m = 5 and p = "PID_literal 10 0 0 (-20) 20 0 False"]
  by (simp add: Let_def clock_defs PID_literal_def)

subsection \<open>C8: the pure proportional controller\<close>

text \<open>
  C8: with integral and derivative gain 0, a call with elapsed time, an error outside the
  deadband and a raw result between the bounds returns exactly the proportional gain
  times \<open>setpoint - measured\<close>, in both listings.
\<close>

theorem C8_pure_proportional_output:
  assumes "Ki p = 0" and "Kd p = 0"
    and "0 < elapsed clk (stamp now p)" and "\<not> \<bar>sp - m\<bar> < Deadband p"
    and "MinOutput p \<le> Kp p * (sp - m)" and "Kp p * (sp - m) \<le> MaxOutput p"
  shows "fst (Update now clk sp m p) = Kp p * (sp - m)
    \<and> fst (Update_variant now clk sp m p) = Kp p * (sp - m)"
  using assms by (simp add: Update_full Update_variant_full Let_def)

text \<open>
  C8 on the spec's scenario, the first test case of \<^verbatim>\<open>TestPIDUpdate\<close>: proportional gain
  1, bounds -100 and 100, setpoint 10, measured value 5; the output is 5.
\<close>

theorem C8_pure_proportional_output_witness:
  "Ki (PID_literal 1 0 0 (-100) 100 0 False) = 0
   \<and> Kd (PID_literal 1 0 0 (-100) 100 0 False) = 0
   \<and> 0 < elapsed 2000000000 (stamp 1000000000 (PID_literal 1 0 0 (-100) 100 0 False))
   \<and> \<not> \<bar>10 - 5\<bar> < Deadband (PID_literal 1 0 0 (-100) 100 0 False)
   \<and> MinOutput (PID_literal 1 0 0 (-100) 100 0 False)
        \<le> Kp (PID_literal 1 0 0 (-100) 100 0 False) * (10 - 5)
   \<and> Kp (PID_literal 1 0 0 (-100) 100 0 False) * (10 - 5)
        \<le> MaxOutput (PID_literal 1 0 0 (-100) 100 0 False)
   \<and> fst (Update 1000000000 2000000000 10 5 (PID_literal 1 0 0 (-100) 100 0 False)) = 5
   \<and> fst (Update_variant 1000000000 2000000000 10 5 (PID_literal 1 0 0 (-100) 100 0 False)) = 5"
  using C8_pure_proportional_output [where now = 1000000000 and clk = 2000000000
      and sp = 10 and m = 5 and p = "PID_literal 1 0 0 (-100) 100 0 False"]
  by (simp add: clock_defs PID_literal_def)

subsection \<open>C9: Reset\<close>

text \<open>
  C9: \<open>Reset\<close> sets the previous error and the accumulator to 0 and the timestamp to
  the current time, so the timestamp is the unset sentinel only if the clock reading
  itself is the zero instant; the last output, the saturation flag and the configuration
  keep their values.
\<close>

theorem C9_Reset_clears_only_error_integral_time:
  "Reset now p = p\<lparr>prevError := 0, integral := 0, lastTime := now\<rparr>
   \<and> prevError (Reset now p) = 0
   \<and> integral (Reset now p) = 0
   \<and> lastTime (Reset now p) = now
   \<and> IsZero (lastTime (Reset now p)) = IsZero now
   \<and> lastOutput (Reset now p) = lastOutput p
   \<and> Saturated (Reset now p) = Saturated p
   \<and> Kp (Reset now p) = Kp p \<and> Ki (Reset now p) = Ki p \<and> Kd (Reset now p) = Kd p
   \<and> MinOutput (Reset now p) = MinOutput p \<and> MaxOutput (Reset now p) = MaxOutput p
   \<and> Deadband (Reset now p) = Deadband p \<and> AntiWindup (Reset now p) = AntiWindup p"
  by (simp add: Reset_def)

subsection \<open>C10: the two listings of Update\<close>

text \<open>
  C10 says that the two listings of \<open>Update\<close> are equivalent: from the same state, with
  the same inputs and clock readings, they return the same output and leave the same
  state.  They return the same output and agree on every field but the accumulator
  (lemma \<open>Update_variant_agrees\<close>); the accumulator differs whenever it advances from a
  nonzero value, because the variant stores the trapezoidal increment alone.  Here the
  controller \<^verbatim>\<open>PID{Kp: 1, Ki: 0.1, MinOutput: -100, MaxOutput: 100, AntiWindup: true}\<close>,
  with accumulator 5/2 and previous error 5 after a first update, is updated two seconds
  later: both listings return 21/4, the primary one leaves 25/2 in the accumulator, the
  variant leaves 10.
\<close>

theorem C10_listings_differ_in_integral:
  "Update 3000000000 3000000000 10 5
      ((PID_literal 1 (1/10) 0 (-100) 100 0 True)\<lparr>prevError := 5, integral := 5/2,
          lastTime := 1000000000, lastOutput := 5\<rparr>)
     = (21/4, (PID_literal 1 (1/10) 0 (-100) 100 0 True)\<lparr>prevError := 5, integral := 25/2,
          lastTime := 3000000000, lastOutput := 21/4\<rparr>)
   \<and> Update_variant 3000000000 3000000000 10 5
      ((PID_literal 1 (1/10) 0 (-100) 100 0 True)\<lparr>prevError := 5, integral := 5/2,
          lastTime := 1000000000, lastOutput := 5\<rparr>)
     = (21/4, (PID_literal 1 (1/10) 0 (-100) 100 0 True)\<lparr>prevError := 5, integral := 10,
          lastTime := 3000000000, lastOutput := 21/4\<rparr>)
   \<and> Update 3000000000 3000000000 10 5
      ((PID_literal 1 (1/10) 0 (-100) 100 0 True)\<lparr>prevError := 5, integral := 5/2,
          lastTime := 1000000000, lastOutput := 5\<rparr>)
     \<noteq> Update_variant 3000000000 3000000000 10 5
      ((PID_literal 1 (1/10) 0 (-100) 100 0 True)\<lparr>prevError := 5, integral := 5/2,
          lastTime := 1000000000, lastOutput := 5\<rparr>)"
  by (simp add: Update_def Update_variant_def Let_def clock_defs PID_literal_def)

end
